theory Spec2Isabelle
  imports Complex_Main "HOL-Library.Word"
begin

section \<open>JavaScript strings and numbers\<close>

text \<open>
  A JavaScript string is a sequence of 16-bit code units. \<open>str\<close> embeds an ASCII literal
  of the source.
\<close>

type_synonym code_unit = "16 word"
type_synonym jsstring = "code_unit list"

definition str :: "string \<Rightarrow> jsstring" where
  "str cs = map of_char cs"

text \<open>
  \<open>String.prototype.trim\<close> (called as \<open>name.trim()\<close> in \<open>handleSubmit\<close>) removes leading
  and trailing white space and line terminators: TAB, LF, VT, FF, CR, SP, NBSP, the other
  space separators of Unicode, LS, PS and the byte order mark.
\<close>

definition StrWhiteSpaceChar :: "code_unit \<Rightarrow> bool" where
  "StrWhiteSpaceChar c \<longleftrightarrow>
     c = 0x0009 \<or> c = 0x000A \<or> c = 0x000B \<or> c = 0x000C \<or> c = 0x000D \<or> c = 0x0020 \<or>
     c = 0x00A0 \<or> c = 0x1680 \<or> (0x2000 \<le> c \<and> c \<le> 0x200A) \<or> c = 0x2028 \<or> c = 0x2029 \<or>
     c = 0x202F \<or> c = 0x205F \<or> c = 0x3000 \<or> c = 0xFEFF"

definition trim :: "jsstring \<Rightarrow> jsstring" where
  "trim s = rev (dropWhile StrWhiteSpaceChar (rev (dropWhile StrWhiteSpaceChar s)))"

text \<open>
  A Number is \<open>NaN\<close>, an infinity, or a finite value. \<open>Finite sg q\<close> stands for the
  binary64 value nearest to the rational magnitude \<open>q\<close>, with sign \<open>sg\<close> (so \<open>+0\<close> and
  \<open>-0\<close> are told apart); the rounding itself is not computed.
\<close>

datatype sign = Plus | Minus

datatype jsnumber = NaN | Infinity sign | Finite sign rat

definition isNaN :: "jsnumber \<Rightarrow> bool" where
  "isNaN x \<longleftrightarrow> x = NaN"

text \<open>
  \<open>Number(value)\<close> on a string is the StringToNumber conversion of ECMAScript: the
  trimmed text is empty (giving \<open>+0\<close>), a \<open>StrDecimalLiteral\<close>, or an unsigned binary,
  octal or hexadecimal integer literal; anything else gives \<open>NaN\<close>.
\<close>

definition DecimalDigit :: "code_unit \<Rightarrow> bool" where
  "DecimalDigit c \<longleftrightarrow> 0x30 \<le> c \<and> c \<le> 0x39"

definition digit_of :: "code_unit \<Rightarrow> nat option" where
  "digit_of c =
     (if 0x30 \<le> c \<and> c \<le> 0x39 then Some (unat c - 0x30)
      else if 0x61 \<le> c \<and> c \<le> 0x66 then Some (unat c - 0x61 + 10)
      else if 0x41 \<le> c \<and> c \<le> 0x46 then Some (unat c - 0x41 + 10)
      else None)"

definition digits_in_base :: "nat \<Rightarrow> jsstring \<Rightarrow> nat option" where
  "digits_in_base b ds =
     (if ds \<noteq> [] \<and> list_all (\<lambda>c. case digit_of c of None \<Rightarrow> False | Some d \<Rightarrow> d < b) ds
      then Some (foldl (\<lambda>acc c. acc * b + (case digit_of c of None \<Rightarrow> 0 | Some d \<Rightarrow> d)) 0 ds)
      else None)"

definition DecimalDigits :: "jsstring \<Rightarrow> nat option" where
  "DecimalDigits ds = digits_in_base 10 ds"

definition SignedInteger :: "jsstring \<Rightarrow> int option" where
  "SignedInteger r =
     (case r of
        [] \<Rightarrow> None
      | c # r' \<Rightarrow>
          if c = 0x2B then map_option int (DecimalDigits r')
          else if c = 0x2D then map_option (\<lambda>n. - int n) (DecimalDigits r')
          else map_option int (DecimalDigits r))"

definition ExponentPart_opt :: "jsstring \<Rightarrow> int option" where
  "ExponentPart_opt r =
     (case r of
        [] \<Rightarrow> Some 0
      | c # r' \<Rightarrow> if c = 0x65 \<or> c = 0x45 then SignedInteger r' else None)"

definition StrUnsignedDecimalLiteral :: "sign \<Rightarrow> jsstring \<Rightarrow> jsnumber option" where
  "StrUnsignedDecimalLiteral sg t =
     (if t = str ''Infinity'' then Some (Infinity sg)
      else
        let ip = takeWhile DecimalDigit t;
            r1 = dropWhile DecimalDigit t;
            fp = (case r1 of [] \<Rightarrow> [] | c # r' \<Rightarrow>
                    if c = 0x2E then takeWhile DecimalDigit r' else []);
            r2 = (case r1 of [] \<Rightarrow> [] | c # r' \<Rightarrow>
                    if c = 0x2E then dropWhile DecimalDigit r' else r1)
        in if ip = [] \<and> fp = [] then None
           else case ExponentPart_opt r2 of
                  None \<Rightarrow> None
                | Some e \<Rightarrow>
                    Some (Finite sg
                      ((of_nat (case DecimalDigits ip of None \<Rightarrow> 0 | Some n \<Rightarrow> n)
                        + of_nat (case DecimalDigits fp of None \<Rightarrow> 0 | Some n \<Rightarrow> n)
                            / 10 ^ length fp)
                       * (if 0 \<le> e then 10 ^ nat e else 1 / 10 ^ nat (- e)))))"

definition StrDecimalLiteral :: "jsstring \<Rightarrow> jsnumber option" where
  "StrDecimalLiteral t =
     (case t of
        [] \<Rightarrow> None
      | c # t' \<Rightarrow>
          if c = 0x2B then StrUnsignedDecimalLiteral Plus t'
          else if c = 0x2D then StrUnsignedDecimalLiteral Minus t'
          else StrUnsignedDecimalLiteral Plus t)"

definition NonDecimalIntegerLiteral :: "jsstring \<Rightarrow> nat option" where
  "NonDecimalIntegerLiteral t =
     (case t of
        z # p # ds \<Rightarrow>
          if z \<noteq> 0x30 then None
          else if p = 0x62 \<or> p = 0x42 then digits_in_base 2 ds
          else if p = 0x6F \<or> p = 0x4F then digits_in_base 8 ds
          else if p = 0x78 \<or> p = 0x58 then digits_in_base 16 ds
          else None
      | _ \<Rightarrow> None)"

definition Number :: "jsstring \<Rightarrow> jsnumber" where
  "Number s =
     (let t = trim s in
      if t = [] then Finite Plus 0
      else case NonDecimalIntegerLiteral t of
             Some n \<Rightarrow> Finite Plus (of_nat n)
           | None \<Rightarrow> (case StrDecimalLiteral t of Some x \<Rightarrow> x | None \<Rightarrow> NaN))"

section \<open>The record store and the mutation \<open>updateMockData\<close>\<close>

text \<open>
  A document of the \<open>mockData\<close> table as the client sees it: the system fields \<open>_id\<close>
  and \<open>_creationTime\<close> and the schema's \<open>name\<close>, \<open>value\<close> and optional \<open>description\<close>.
\<close>

record item =
  item_id :: jsstring
  item_name :: jsstring
  item_value :: jsnumber
  description :: "jsstring option"
  creationTime :: jsnumber

record mutation_args =
  arg_id :: jsstring
  arg_name :: jsstring
  arg_value :: jsnumber

type_synonym db = "jsstring \<rightharpoonup> item"

datatype db_error = Nonexistent_document

text \<open>
  Modelled from the spec: \<open>ctx.db.patch\<close>, the platform's write that \<open>updateMockData\<close>
  calls as \<open>ctx.db.patch(id, { name, value })\<close>, is not part of the sources. The spec has
  it overwrite exactly the two given fields on one existing record, leaving \<open>description\<close>
  and the timestamp untouched, and fail with a reported error otherwise; the handler's
  own comment reads "Updates only the specified fields of a document".
\<close>

definition db_patch :: "db \<Rightarrow> jsstring \<Rightarrow> jsstring \<Rightarrow> jsnumber \<Rightarrow> db_error + db" where
  "db_patch d i n v =
     (case d i of
        None \<Rightarrow> Inl Nonexistent_document
      | Some doc \<Rightarrow> Inr (d(i \<mapsto> doc\<lparr>item_name := n, item_value := v\<rparr>)))"

definition updateMockData :: "db \<Rightarrow> mutation_args \<Rightarrow> db_error + (db \<times> jsstring)" where
  "updateMockData d args =
     (case db_patch d (arg_id args) (arg_name args) (arg_value args) of
        Inl e \<Rightarrow> Inl e
      | Inr d' \<Rightarrow> Inr (d', arg_id args))"

section \<open>The component \<open>UpdatePage\<close>\<close>

subsection \<open>State and effects\<close>

text \<open>
  The six \<open>useState\<close> cells of the component (\<open>value'\<close> is the source's \<open>value\<close>). The
  handlers are functions of these cells; what the browser lets a user type into the
  number input is not part of the component.
\<close>

record form_state =
  selectedId :: jsstring
  name :: jsstring
  value' :: jsstring
  isSubmitting :: bool
  successMessage :: jsstring
  errorMessage :: jsstring

definition initial_state :: form_state where
  "initial_state =
     \<lparr>selectedId = [], name = [], value' = [], isSubmitting = False,
      successMessage = [], errorMessage = []\<rparr>"

text \<open>
  A handler is modelled by the effects it issues, in program order: calls of the state
  setters, the call of the mutation, and the call of \<open>setTimeout\<close> with its callback and
  its delay in milliseconds.
\<close>

datatype callback = ClearSuccessMessage

record js_error =
  message :: jsstring

datatype effect =
    PreventDefault
  | SetSelectedId jsstring
  | SetName jsstring
  | SetValue jsstring
  | SetIsSubmitting bool
  | SetSuccessMessage jsstring
  | SetErrorMessage jsstring
  | UpdateMockData mutation_args
  | SetTimeout callback nat

fun set_state :: "effect \<Rightarrow> form_state \<Rightarrow> form_state" where
  "set_state (SetSelectedId x) s = s\<lparr>selectedId := x\<rparr>"
| "set_state (SetName x) s = s\<lparr>name := x\<rparr>"
| "set_state (SetValue x) s = s\<lparr>value' := x\<rparr>"
| "set_state (SetIsSubmitting b) s = s\<lparr>isSubmitting := b\<rparr>"
| "set_state (SetSuccessMessage x) s = s\<lparr>successMessage := x\<rparr>"
| "set_state (SetErrorMessage x) s = s\<lparr>errorMessage := x\<rparr>"
| "set_state PreventDefault s = s"
| "set_state (UpdateMockData a) s = s"
| "set_state (SetTimeout cb d) s = s"

text \<open>The state of the mounted component after a handler's effects.\<close>

definition run :: "effect list \<Rightarrow> form_state \<Rightarrow> form_state" where
  "run es s = fold set_state es s"

text \<open>The mutation calls and the timers among a handler's effects.\<close>

fun mutation_calls :: "effect list \<Rightarrow> mutation_args list" where
  "mutation_calls [] = []"
| "mutation_calls (UpdateMockData a # es) = a # mutation_calls es"
| "mutation_calls (e # es) = mutation_calls es"

fun timeouts :: "effect list \<Rightarrow> (callback \<times> nat) list" where
  "timeouts [] = []"
| "timeouts (SetTimeout cb d # es) = (cb, d) # timeouts es"
| "timeouts (e # es) = timeouts es"

subsection \<open>Handlers\<close>

text \<open>
  \<open>handleRecordSelect\<close>: \<open>mockData\<close> is \<open>None\<close> while the query result is \<open>undefined\<close>.
  \<open>Number.prototype.toString\<close> is the runtime's and is taken as a parameter.
\<close>

definition handleRecordSelect ::
  "(jsnumber \<Rightarrow> jsstring) \<Rightarrow> item list option \<Rightarrow> jsstring \<Rightarrow> effect list" where
  "handleRecordSelect toString mockData i =
     SetSelectedId i #
     (case (case mockData of None \<Rightarrow> None
            | Some items \<Rightarrow> find (\<lambda>item. item_id item = i) items) of
        None \<Rightarrow> []
      | Some selectedRecord \<Rightarrow>
          [SetName (item_name selectedRecord),
           SetValue (toString (item_value selectedRecord)),
           SetSuccessMessage [],
           SetErrorMessage []])"

text \<open>The \<open>onChange\<close> handlers of the two text inputs.\<close>

definition onChange_name :: "jsstring \<Rightarrow> effect list" where
  "onChange_name v = [SetName v]"

definition onChange_value :: "jsstring \<Rightarrow> effect list" where
  "onChange_value v = [SetValue v]"

text \<open>
  \<open>handleSubmit\<close> up to its \<open>await\<close>: the three validations in program order, then the
  setters and the call of the mutation.
\<close>

definition handleSubmit :: "form_state \<Rightarrow> effect list" where
  "handleSubmit s =
     PreventDefault #
     (if selectedId s = [] then
        [SetErrorMessage (str ''Please select a record to update.'')]
      else if trim (name s) = [] then
        [SetErrorMessage (str ''Name cannot be empty.'')]
      else if value' s = [] \<or> isNaN (Number (value' s)) then
        [SetErrorMessage (str ''Value must be a valid number.'')]
      else
        [SetIsSubmitting True,
         SetErrorMessage [],
         SetSuccessMessage [],
         UpdateMockData
           \<lparr>arg_id = selectedId s, arg_name = trim (name s), arg_value = Number (value' s)\<rparr>])"

text \<open>
  The rest of \<open>handleSubmit\<close> when the awaited call fulfils (the \<open>try\<close> block, then
  \<open>finally\<close>) and when it rejects with an error object (\<open>catch\<close>, then \<open>finally\<close>).
\<close>

definition handleSubmit_fulfilled :: "effect list" where
  "handleSubmit_fulfilled =
     [SetSuccessMessage
        (str ''Record updated successfully! Check the View page to see the change.''),
      SetTimeout ClearSuccessMessage 3000,
      SetIsSubmitting False]"

definition handleSubmit_rejected :: "js_error \<Rightarrow> effect list" where
  "handleSubmit_rejected error =
     [SetErrorMessage (str ''Failed to update record: '' @ message error),
      SetIsSubmitting False]"


subsection \<open>Rendering\<close>

text \<open>
  The three returns of each page. Of the populated form the model keeps the controls,
  their \<open>disabled\<close> attributes and the two message blocks; of the populated table it
  keeps the rows, with the value and the creation time as numbers (the page prints the
  latter through \<open>toLocaleString\<close>). Static text and the record-details panel are left
  out.
\<close>

datatype 'a page = Loading_container jsstring jsstring | Empty_state jsstring jsstring | Content 'a

datatype select_option = Choose_a_record | Record_option jsstring jsstring jsnumber

record form_view =
  select_value :: jsstring
  select_disabled :: bool
  select_options :: "select_option list"
  name_value :: jsstring
  name_disabled :: bool
  value_value :: jsstring
  value_disabled :: bool
  submit_disabled :: bool
  submit_label :: jsstring
  error_message :: "jsstring option"
  success_message :: "jsstring option"

definition UpdatePage :: "item list option \<Rightarrow> form_state \<Rightarrow> form_view page" where
  "UpdatePage mockData s =
     (case mockData of
        None \<Rightarrow>
          Loading_container (str ''Loading data from Convex...'')
            (str ''Connecting to real-time database'')
      | Some items \<Rightarrow>
          if length items = 0 then
            Empty_state (str ''No data available in the database.'')
              (str ''Please seed the database first using the data seeding script.'')
          else
            Content
              \<lparr>select_value = selectedId s,
               select_disabled = isSubmitting s,
               select_options =
                 Choose_a_record #
                 map (\<lambda>item. Record_option (item_id item) (item_name item) (item_value item))
                   items,
               name_value = name s,
               name_disabled = (selectedId s = [] \<or> isSubmitting s),
               value_value = value' s,
               value_disabled = (selectedId s = [] \<or> isSubmitting s),
               submit_disabled = (selectedId s = [] \<or> isSubmitting s),
               submit_label =
                 (if isSubmitting s then str ''Updating...'' else str ''Update Record''),
               error_message =
                 (if errorMessage s = [] then None else Some (errorMessage s)),
               success_message =
                 (if successMessage s = [] then None else Some (successMessage s))\<rparr>)"

record table_row =
  id_cell :: jsstring
  name_cell :: jsstring
  value_cell :: jsnumber
  description_cell :: "jsstring option"
  created_cell :: jsnumber

definition ViewPage :: "item list option \<Rightarrow> table_row list page" where
  "ViewPage mockData =
     (case mockData of
        None \<Rightarrow>
          Loading_container (str ''Loading data from Convex...'')
            (str ''Connecting to real-time database'')
      | Some items \<Rightarrow>
          if length items = 0 then
            Empty_state (str ''No data available in the database.'')
              (str ''Use the Update page to add some data.'')
          else
            Content
              (map (\<lambda>item.
                      \<lparr>id_cell = take 8 (item_id item) @ str ''...'',
                       name_cell = item_name item,
                       value_cell = item_value item,
                       description_cell = description item,
                       created_cell = creationTime item\<rparr>)
                 items))"

fun is_loading :: "'a page \<Rightarrow> bool" where
  "is_loading (Loading_container a b) = True"
| "is_loading p = False"

fun is_empty_state :: "'a page \<Rightarrow> bool" where
  "is_empty_state (Empty_state a b) = True"
| "is_empty_state p = False"

fun has_selector :: "form_view page \<Rightarrow> bool" where
  "has_selector (Content v) = True"
| "has_selector p = False"

subsection \<open>The component in its runtime\<close>

text \<open>
  What surrounds the handlers: the clock in milliseconds, the timers that \<open>setTimeout\<close>
  has scheduled (due time and callback), the mutation calls that have not settled, and
  whether the component is still mounted. The component registers no cleanup, so
  teardown cancels neither timers nor pending calls.
\<close>

record world =
  form :: form_state
  mounted :: bool
  now :: nat
  timers :: "(nat \<times> callback) list"
  in_flight :: "mutation_args list"


text \<open>
  Modelled from the spec: the state setters that \<open>useState\<close> returns belong to the UI
  runtime and are not part of the sources. On the mounted component a setter writes its
  cell. For a component that has been torn down the spec has every pending callback be
  a no-op that does not mutate the discarded state; accordingly a setter that is called
  after teardown leaves the cells as they were.
\<close>

fun perform :: "effect \<Rightarrow> world \<Rightarrow> world" where
  "perform PreventDefault w = w"
| "perform (UpdateMockData a) w = w\<lparr>in_flight := in_flight w @ [a]\<rparr>"
| "perform (SetTimeout cb d) w = w\<lparr>timers := timers w @ [(now w + d, cb)]\<rparr>"
| "perform e w =
     (if mounted w then w\<lparr>form := set_state e (form w)\<rparr> else w)"

definition dispatch :: "effect list \<Rightarrow> world \<Rightarrow> world" where
  "dispatch es w = fold perform es w"







subsection \<open>Data of the component's test suite and scenarios built from it\<close>

text \<open>The record and the rejection that \<open>UpdatePage.test.jsx\<close> uses, and a second record.\<close>

definition alpha :: item where
  "alpha =
     \<lparr>item_id = str ''abc123'', item_name = str ''Alpha'', item_value = Finite Plus 100,
      description = Some (str ''First''), creationTime = Finite Plus 1234567890000\<rparr>"

definition beta :: item where
  "beta =
     \<lparr>item_id = str ''def456'', item_name = str ''Beta'', item_value = Finite Plus 200,
      description = None, creationTime = Finite Plus 1234567890001\<rparr>"

definition network_error :: js_error where
  "network_error = \<lparr>message = str ''Network error''\<rparr>"

definition success_text :: jsstring where
  "success_text = str ''Record updated successfully! Check the View page to see the change.''"

definition test_db :: db where
  "test_db = [str ''abc123'' \<mapsto> alpha, str ''def456'' \<mapsto> beta]"

definition test_args :: mutation_args where
  "test_args =
     \<lparr>arg_id = str ''abc123'', arg_name = str ''Updated Name'', arg_value = Finite Plus 250\<rparr>"

text \<open>
  States reached from the initial one: the record selected; then name and value edited;
  then (from the selection) submitted; then fulfilled and the name blanked.
\<close>

definition selected_state :: form_state where
  "selected_state =
     run (handleRecordSelect (\<lambda>n. str ''100'') (Some [alpha]) (str ''abc123'')) initial_state"

definition edited_state :: form_state where
  "edited_state =
     run (onChange_value (str ''250'')) (run (onChange_name (str ''Updated Name'')) selected_state)"

definition submitting_state :: form_state where
  "submitting_state = run (handleSubmit selected_state) selected_state"

definition success_shown_state :: form_state where
  "success_shown_state =
     run (onChange_name (str ''   '')) (run handleSubmit_fulfilled submitting_state)"

text \<open>States that fail one validation each, and one that shows both messages.\<close>

definition no_selection_state :: form_state where
  "no_selection_state =
     \<lparr>selectedId = [], name = str ''   '', value' = str ''abc'', isSubmitting = False,
      successMessage = [], errorMessage = []\<rparr>"

definition blank_name_state :: form_state where
  "blank_name_state =
     \<lparr>selectedId = str ''abc123'', name = str ''   '', value' = str ''abc'',
      isSubmitting = False, successMessage = [], errorMessage = []\<rparr>"

definition bad_value_state :: form_state where
  "bad_value_state =
     \<lparr>selectedId = str ''abc123'', name = str ''Alpha'', value' = str ''abc'',
      isSubmitting = False, successMessage = [], errorMessage = []\<rparr>"

definition messages_shown_state :: form_state where
  "messages_shown_state =
     \<lparr>selectedId = [], name = [], value' = [], isSubmitting = False,
      successMessage = success_text,
      errorMessage = str ''Please select a record to update.''\<rparr>"

definition blank_value_state :: form_state where
  "blank_value_state =
     \<lparr>selectedId = str ''abc123'', name = str ''Alpha'', value' = str ''   '',
      isSubmitting = False, successMessage = [], errorMessage = []\<rparr>"

definition infinity_value_state :: form_state where
  "infinity_value_state =
     \<lparr>selectedId = str ''abc123'', name = str ''Alpha'', value' = str ''Infinity'',
      isSubmitting = False, successMessage = [], errorMessage = []\<rparr>"

definition empty_value_state :: form_state where
  "empty_value_state =
     \<lparr>selectedId = str ''abc123'', name = str ''Alpha'', value' = [],
      isSubmitting = False, successMessage = [], errorMessage = []\<rparr>"

text \<open>The views of three of these states over the one-record set.\<close>

definition alpha_options :: "select_option list" where
  "alpha_options =
     [Choose_a_record, Record_option (str ''abc123'') (str ''Alpha'') (Finite Plus 100)]"

definition unselected_view :: form_view where
  "unselected_view =
     \<lparr>select_value = [], select_disabled = False, select_options = alpha_options,
      name_value = [], name_disabled = True, value_value = [], value_disabled = True,
      submit_disabled = True, submit_label = str ''Update Record'',
      error_message = None, success_message = None\<rparr>"

definition submitting_view :: form_view where
  "submitting_view =
     \<lparr>select_value = str ''abc123'', select_disabled = True, select_options = alpha_options,
      name_value = str ''Alpha'', name_disabled = True,
      value_value = str ''100'', value_disabled = True,
      submit_disabled = True, submit_label = str ''Updating...'',
      error_message = None, success_message = None\<rparr>"

definition rejected_view :: form_view where
  "rejected_view =
     \<lparr>select_value = str ''abc123'', select_disabled = False, select_options = alpha_options,
      name_value = str ''Alpha'', name_disabled = False,
      value_value = str ''100'', value_disabled = False,
      submit_disabled = False, submit_label = str ''Update Record'',
      error_message = Some (str ''Failed to update record: Network error''),
      success_message = None\<rparr>"

definition both_messages_view :: form_view where
  "both_messages_view =
     \<lparr>select_value = str ''abc123'', select_disabled = False, select_options = alpha_options,
      name_value = str ''   '', name_disabled = False,
      value_value = str ''100'', value_disabled = False,
      submit_disabled = False, submit_label = str ''Update Record'',
      error_message = Some (str ''Name cannot be empty.''),
      success_message = Some success_text\<rparr>"


section \<open>Evaluation lemmas\<close>

lemmas number_defs =
  Number_def trim_def str_def StrWhiteSpaceChar_def NonDecimalIntegerLiteral_def
  StrDecimalLiteral_def StrUnsignedDecimalLiteral_def DecimalDigit_def ExponentPart_opt_def
  SignedInteger_def DecimalDigits_def digits_in_base_def digit_of_def

lemma str_nonempty [simp]: "str (c # cs) \<noteq> []"
  by (simp add: str_def)

lemma Number_100: "Number (str ''100'') = Finite Plus 100"
  by (simp add: number_defs)

lemma Number_250: "Number (str ''250'') = Finite Plus 250"
  by (simp add: number_defs)

lemma Number_abc: "Number (str ''abc'') = NaN"
  by (simp add: number_defs)

lemma Number_blank: "Number (str ''   '') = Finite Plus 0"
  by (simp add: number_defs)

lemma Number_empty: "Number [] = Finite Plus 0"
  by (simp add: number_defs)

lemma Number_Infinity: "Number (str ''Infinity'') = Infinity Plus"
  by (simp add: number_defs)

lemma trim_blank: "trim (str ''   '') = []"
  by (simp add: trim_def str_def StrWhiteSpaceChar_def)

lemma trim_Alpha: "trim (str ''Alpha'') = str ''Alpha''"
  by (simp add: trim_def str_def StrWhiteSpaceChar_def)

lemma trim_Updated_Name: "trim (str ''Updated Name'') = str ''Updated Name''"
  by (simp add: trim_def str_def StrWhiteSpaceChar_def)

lemma selected_state_eq:
  "selected_state =
     \<lparr>selectedId = str ''abc123'', name = str ''Alpha'', value' = str ''100'',
      isSubmitting = False, successMessage = [], errorMessage = []\<rparr>"
  by (simp add: selected_state_def run_def handleRecordSelect_def alpha_def initial_state_def)

lemma edited_state_eq:
  "edited_state =
     \<lparr>selectedId = str ''abc123'', name = str ''Updated Name'', value' = str ''250'',
      isSubmitting = False, successMessage = [], errorMessage = []\<rparr>"
  by (simp add: edited_state_def selected_state_eq run_def onChange_value_def onChange_name_def)

lemma submitting_state_eq:
  "submitting_state =
     \<lparr>selectedId = str ''abc123'', name = str ''Alpha'', value' = str ''100'',
      isSubmitting = True, successMessage = [], errorMessage = []\<rparr>"
  by (simp add: submitting_state_def selected_state_eq handleSubmit_def trim_Alpha
      Number_100 isNaN_def run_def)

lemma success_shown_state_eq:
  "success_shown_state =
     \<lparr>selectedId = str ''abc123'', name = str ''   '', value' = str ''100'',
      isSubmitting = False, successMessage = success_text, errorMessage = []\<rparr>"
  by (simp add: success_shown_state_def submitting_state_eq run_def handleSubmit_fulfilled_def
      onChange_name_def success_text_def)


section \<open>Lemmas on lookup and on the runtime\<close>

lemma find_distinct:
  "distinct (map item_id items) \<Longrightarrow> r \<in> set items \<Longrightarrow>
   find (\<lambda>item. item_id item = item_id r) items = Some r"
  by (induction items) (auto simp: rev_image_eqI)



lemma dispatch_Nil [simp]: "dispatch [] w = w"
  by (simp add: dispatch_def)

lemma dispatch_Cons [simp]: "dispatch (e # es) w = dispatch es (perform e w)"
  by (simp add: dispatch_def)









section \<open>The claims\<close>

subsection \<open>Submission\<close>

text \<open>
  Claim C1. In every state with a selection (\<open>selectedId\<close> not empty), a name whose trim
  is not empty and a value that passes the check of \<open>handleSubmit\<close> (not empty, and
  \<open>Number\<close> of it is not \<open>NaN\<close>), \<open>handleSubmit\<close> calls the mutation exactly once, with
  \<open>{id: selectedId, name: name.trim(), value: Number(value)}\<close>; the calls
  \<open>setIsSubmitting(true)\<close>, \<open>setErrorMessage("")\<close> and \<open>setSuccessMessage("")\<close> come before
  it, and neither continuation calls the mutation again.
\<close>

theorem submit_invokes_mutation:
  assumes "selectedId s \<noteq> []" and "trim (name s) \<noteq> []"
    and "value' s \<noteq> []" and "\<not> isNaN (Number (value' s))"
  shows "handleSubmit s =
           [PreventDefault, SetIsSubmitting True, SetErrorMessage [], SetSuccessMessage [],
            UpdateMockData
              \<lparr>arg_id = selectedId s, arg_name = trim (name s), arg_value = Number (value' s)\<rparr>]
         \<and> mutation_calls (handleSubmit s) =
             [\<lparr>arg_id = selectedId s, arg_name = trim (name s), arg_value = Number (value' s)\<rparr>]
         \<and> mutation_calls handleSubmit_fulfilled = []
         \<and> mutation_calls (handleSubmit_rejected error) = []
         \<and> isSubmitting (run (butlast (handleSubmit s)) s)
         \<and> errorMessage (run (butlast (handleSubmit s)) s) = []
         \<and> successMessage (run (butlast (handleSubmit s)) s) = []"
  using assms
  by (simp add: handleSubmit_def handleSubmit_fulfilled_def handleSubmit_rejected_def run_def)

text \<open>
  The spec's example: \<open>abc123\<close> selected, the name edited to "Updated Name" and the value
  to "250".
\<close>

theorem submit_invokes_mutation_witness:
  "selectedId edited_state \<noteq> [] \<and> trim (name edited_state) \<noteq> []
   \<and> value' edited_state \<noteq> [] \<and> \<not> isNaN (Number (value' edited_state))
   \<and> mutation_calls (handleSubmit edited_state) =
       [\<lparr>arg_id = str ''abc123'', arg_name = str ''Updated Name'', arg_value = Finite Plus 250\<rparr>]"
proof -
  have h1: "selectedId edited_state \<noteq> []"
    by (simp add: edited_state_eq)
  have h2: "trim (name edited_state) \<noteq> []"
    by (simp add: edited_state_eq trim_Updated_Name)
  have h3: "value' edited_state \<noteq> []"
    by (simp add: edited_state_eq)
  have h4: "\<not> isNaN (Number (value' edited_state))"
    by (simp add: edited_state_eq Number_250 isNaN_def)
  show ?thesis
    using h1 h2 h3 h4 submit_invokes_mutation [OF h1 h2 h3 h4]
    by (simp add: edited_state_eq trim_Updated_Name Number_250)
qed

text \<open>
  Claim C2. \<open>handleSubmit\<close> checks, in this order and stopping at the first failure, that
  a record is selected, that the trimmed name is not empty and that the value passes the
  number check. Each failure issues one call of \<open>setErrorMessage\<close>, with "Please select a
  record to update.", "Name cannot be empty." or "Value must be a valid number.", and
  no call of the mutation.
\<close>

theorem submit_validation_order:
  "(selectedId s = [] \<longrightarrow>
      handleSubmit s =
        [PreventDefault, SetErrorMessage (str ''Please select a record to update.'')]
      \<and> errorMessage (run (handleSubmit s) s) = str ''Please select a record to update.'')
   \<and> (selectedId s \<noteq> [] \<and> trim (name s) = [] \<longrightarrow>
      handleSubmit s = [PreventDefault, SetErrorMessage (str ''Name cannot be empty.'')]
      \<and> errorMessage (run (handleSubmit s) s) = str ''Name cannot be empty.'')
   \<and> (selectedId s \<noteq> [] \<and> trim (name s) \<noteq> []
       \<and> (value' s = [] \<or> isNaN (Number (value' s))) \<longrightarrow>
      handleSubmit s = [PreventDefault, SetErrorMessage (str ''Value must be a valid number.'')]
      \<and> errorMessage (run (handleSubmit s) s) = str ''Value must be a valid number.'')
   \<and> (selectedId s = [] \<or> trim (name s) = [] \<or> value' s = [] \<or> isNaN (Number (value' s)) \<longrightarrow>
      mutation_calls (handleSubmit s) = [])"
  by (simp add: handleSubmit_def run_def)

text \<open>
  No selection (with a blank name and the value "abc" as well), the name "   " (with the
  value "abc" as well), and the value "abc".
\<close>

theorem submit_validation_order_witness:
  "selectedId no_selection_state = []
   \<and> handleSubmit no_selection_state =
       [PreventDefault, SetErrorMessage (str ''Please select a record to update.'')]
   \<and> selectedId blank_name_state \<noteq> [] \<and> trim (name blank_name_state) = []
   \<and> handleSubmit blank_name_state =
       [PreventDefault, SetErrorMessage (str ''Name cannot be empty.'')]
   \<and> selectedId bad_value_state \<noteq> [] \<and> trim (name bad_value_state) \<noteq> []
   \<and> isNaN (Number (value' bad_value_state))
   \<and> handleSubmit bad_value_state =
       [PreventDefault, SetErrorMessage (str ''Value must be a valid number.'')]
   \<and> mutation_calls (handleSubmit no_selection_state) = []
   \<and> mutation_calls (handleSubmit blank_name_state) = []
   \<and> mutation_calls (handleSubmit bad_value_state) = []"
proof -
  have a: "selectedId no_selection_state = []"
    by (simp add: no_selection_state_def)
  have b: "selectedId blank_name_state \<noteq> [] \<and> trim (name blank_name_state) = []"
    by (simp add: blank_name_state_def trim_blank)
  have c: "selectedId bad_value_state \<noteq> [] \<and> trim (name bad_value_state) \<noteq> []
           \<and> isNaN (Number (value' bad_value_state))"
    by (simp add: bad_value_state_def trim_Alpha Number_abc isNaN_def)
  show ?thesis
    using a b c
      submit_validation_order [of no_selection_state]
      submit_validation_order [of blank_name_state]
      submit_validation_order [of bad_value_state]
    by simp
qed

text \<open>
  Claim C4, as stated, has a validation failure replace a success message that is on
  display. After a fulfilled submission of \<open>abc123\<close> the name is blanked and the form
  submitted again: the page then shows "Name cannot be empty." and the success message
  together, since the failing branch calls \<open>setErrorMessage\<close> only and the two messages
  are separate cells.
\<close>

theorem success_beside_error_counterexample:
  "selectedId success_shown_state \<noteq> [] \<and> trim (name success_shown_state) = []
   \<and> successMessage (run (handleSubmit success_shown_state) success_shown_state) = success_text
   \<and> UpdatePage (Some [alpha]) (run (handleSubmit success_shown_state) success_shown_state) =
       Content both_messages_view
   \<and> error_message both_messages_view = Some (str ''Name cannot be empty.'')
   \<and> success_message both_messages_view = Some success_text"
  by (simp add: success_shown_state_eq trim_blank handleSubmit_def run_def UpdatePage_def
      alpha_def both_messages_view_def alpha_options_def)
    (simp add: success_text_def)

text \<open>
  Claim C4, amended. On every validation failure of \<open>handleSubmit\<close> the only change of
  state is that \<open>errorMessage\<close> becomes the text of the failed check: \<open>selectedId\<close>, \<open>name\<close>,
  \<open>value\<close>, \<open>isSubmitting\<close> and \<open>successMessage\<close> keep their values, no mutation is called
  and no timer is set. A success message on display is therefore kept, not replaced.
\<close>

theorem validation_failure_frame:
  "(selectedId s = [] \<longrightarrow>
      run (handleSubmit s) s = s\<lparr>errorMessage := str ''Please select a record to update.''\<rparr>)
   \<and> (selectedId s \<noteq> [] \<and> trim (name s) = [] \<longrightarrow>
      run (handleSubmit s) s = s\<lparr>errorMessage := str ''Name cannot be empty.''\<rparr>)
   \<and> (selectedId s \<noteq> [] \<and> trim (name s) \<noteq> []
       \<and> (value' s = [] \<or> isNaN (Number (value' s))) \<longrightarrow>
      run (handleSubmit s) s = s\<lparr>errorMessage := str ''Value must be a valid number.''\<rparr>)
   \<and> (selectedId s = [] \<or> trim (name s) = [] \<or> value' s = [] \<or> isNaN (Number (value' s)) \<longrightarrow>
      selectedId (run (handleSubmit s) s) = selectedId s
      \<and> name (run (handleSubmit s) s) = name s
      \<and> value' (run (handleSubmit s) s) = value' s
      \<and> isSubmitting (run (handleSubmit s) s) = isSubmitting s
      \<and> successMessage (run (handleSubmit s) s) = successMessage s
      \<and> mutation_calls (handleSubmit s) = []
      \<and> timeouts (handleSubmit s) = [])"
  by (simp add: handleSubmit_def run_def)

theorem validation_failure_frame_witness:
  "selectedId messages_shown_state = []
   \<and> run (handleSubmit messages_shown_state) messages_shown_state = messages_shown_state
   \<and> selectedId success_shown_state \<noteq> [] \<and> trim (name success_shown_state) = []
   \<and> run (handleSubmit success_shown_state) success_shown_state =
       success_shown_state\<lparr>errorMessage := str ''Name cannot be empty.''\<rparr>
   \<and> selectedId bad_value_state \<noteq> [] \<and> trim (name bad_value_state) \<noteq> []
   \<and> isNaN (Number (value' bad_value_state))
   \<and> run (handleSubmit bad_value_state) bad_value_state =
       bad_value_state\<lparr>errorMessage := str ''Value must be a valid number.''\<rparr>"
proof -
  have a: "selectedId messages_shown_state = []"
    by (simp add: messages_shown_state_def)
  have b: "selectedId success_shown_state \<noteq> [] \<and> trim (name success_shown_state) = []"
    by (simp add: success_shown_state_eq trim_blank)
  have c: "selectedId bad_value_state \<noteq> [] \<and> trim (name bad_value_state) \<noteq> []
           \<and> isNaN (Number (value' bad_value_state))"
    by (simp add: bad_value_state_def trim_Alpha Number_abc isNaN_def)
  have d: "messages_shown_state\<lparr>errorMessage := str ''Please select a record to update.''\<rparr> =
             messages_shown_state"
    by (simp add: messages_shown_state_def)
  show ?thesis
    using a b c d
      validation_failure_frame [of messages_shown_state]
      validation_failure_frame [of success_shown_state]
      validation_failure_frame [of bad_value_state]
    by simp
qed

text \<open>
  Claim C7. When the mutation rejects with an error whose message is \<open>r\<close>, the
  continuation of \<open>handleSubmit\<close> sets \<open>errorMessage\<close> to "Failed to update record: "
  followed by \<open>r\<close> and \<open>isSubmitting\<close> to false, and changes nothing else; it calls neither
  the mutation again nor \<open>setTimeout\<close>. With a record selected, the populated form then
  has the selector, both fields and the submit control enabled.
\<close>

theorem rejection_message:
  "run (handleSubmit_rejected error) s =
     s\<lparr>errorMessage := str ''Failed to update record: '' @ message error,
       isSubmitting := False\<rparr>
   \<and> errorMessage (run (handleSubmit_rejected error) s) =
       str ''Failed to update record: '' @ message error
   \<and> \<not> isSubmitting (run (handleSubmit_rejected error) s)
   \<and> mutation_calls (handleSubmit_rejected error) = []
   \<and> timeouts (handleSubmit_rejected error) = []
   \<and> (selectedId s \<noteq> []
       \<and> UpdatePage mockData (run (handleSubmit_rejected error) s) = Content v \<longrightarrow>
         \<not> select_disabled v \<and> \<not> name_disabled v \<and> \<not> value_disabled v \<and> \<not> submit_disabled v)"
  by (auto simp: handleSubmit_rejected_def run_def UpdatePage_def split: option.splits if_splits)

text \<open>The rejection "Network error" of the submission of \<open>abc123\<close>.\<close>

theorem rejection_message_witness:
  "selectedId submitting_state \<noteq> []
   \<and> UpdatePage (Some [alpha]) (run (handleSubmit_rejected network_error) submitting_state) =
       Content rejected_view
   \<and> errorMessage (run (handleSubmit_rejected network_error) submitting_state) =
       str ''Failed to update record: Network error''
   \<and> \<not> isSubmitting (run (handleSubmit_rejected network_error) submitting_state)
   \<and> \<not> select_disabled rejected_view \<and> \<not> name_disabled rejected_view
   \<and> \<not> value_disabled rejected_view \<and> \<not> submit_disabled rejected_view"
proof -
  have a: "selectedId submitting_state \<noteq> []"
    by (simp add: submitting_state_eq)
  have b: "UpdatePage (Some [alpha]) (run (handleSubmit_rejected network_error) submitting_state) =
             Content rejected_view"
    by (simp add: UpdatePage_def submitting_state_eq rejected_view_def alpha_def
        alpha_options_def handleSubmit_rejected_def run_def network_error_def)
      (simp add: str_def)
  show ?thesis
    using a b
      rejection_message [of network_error submitting_state "Some [alpha]" rejected_view]
    by (simp add: network_error_def str_def)
qed

text \<open>
  Claim C10. With a record selected and a name that is not blank, \<open>handleSubmit\<close> calls
  the mutation exactly when \<open>value\<close> is not the empty string and \<open>Number(value)\<close> is not
  \<open>NaN\<close>, and passes \<open>Number(value)\<close>. So the value "   " goes through as \<open>0\<close> and
  "Infinity" as \<open>Infinity\<close>, while the empty string is refused with "Value must be a
  valid number." although \<open>Number\<close> of it is \<open>0\<close>.
\<close>

theorem value_check_accepts:
  assumes "selectedId s \<noteq> []" and "trim (name s) \<noteq> []"
  shows "(mutation_calls (handleSubmit s) \<noteq> [] \<longleftrightarrow>
            value' s \<noteq> [] \<and> \<not> isNaN (Number (value' s)))
         \<and> (value' s \<noteq> [] \<and> \<not> isNaN (Number (value' s)) \<longrightarrow>
              mutation_calls (handleSubmit s) =
                [\<lparr>arg_id = selectedId s, arg_name = trim (name s),
                  arg_value = Number (value' s)\<rparr>])
         \<and> (value' s = str ''   '' \<longrightarrow>
              mutation_calls (handleSubmit s) =
                [\<lparr>arg_id = selectedId s, arg_name = trim (name s), arg_value = Finite Plus 0\<rparr>])
         \<and> (value' s = str ''Infinity'' \<longrightarrow>
              mutation_calls (handleSubmit s) =
                [\<lparr>arg_id = selectedId s, arg_name = trim (name s), arg_value = Infinity Plus\<rparr>])
         \<and> (value' s = [] \<longrightarrow>
              Number (value' s) = Finite Plus 0 \<and> \<not> isNaN (Number (value' s))
              \<and> mutation_calls (handleSubmit s) = []
              \<and> errorMessage (run (handleSubmit s) s) = str ''Value must be a valid number.'')"
  using assms
  by (auto simp: handleSubmit_def run_def isNaN_def Number_blank Number_Infinity Number_empty)

theorem value_check_accepts_witness:
  "selectedId blank_value_state \<noteq> [] \<and> trim (name blank_value_state) \<noteq> []
   \<and> value' blank_value_state = str ''   ''
   \<and> mutation_calls (handleSubmit blank_value_state) =
       [\<lparr>arg_id = str ''abc123'', arg_name = str ''Alpha'', arg_value = Finite Plus 0\<rparr>]
   \<and> selectedId infinity_value_state \<noteq> [] \<and> trim (name infinity_value_state) \<noteq> []
   \<and> value' infinity_value_state = str ''Infinity''
   \<and> mutation_calls (handleSubmit infinity_value_state) =
       [\<lparr>arg_id = str ''abc123'', arg_name = str ''Alpha'', arg_value = Infinity Plus\<rparr>]
   \<and> selectedId empty_value_state \<noteq> [] \<and> trim (name empty_value_state) \<noteq> []
   \<and> value' empty_value_state = []
   \<and> mutation_calls (handleSubmit empty_value_state) = []
   \<and> errorMessage (run (handleSubmit empty_value_state) empty_value_state) =
       str ''Value must be a valid number.''"
proof -
  have a: "selectedId blank_value_state \<noteq> []" "trim (name blank_value_state) \<noteq> []"
    and a': "value' blank_value_state = str ''   ''"
    by (simp_all add: blank_value_state_def trim_Alpha)
  have b: "selectedId infinity_value_state \<noteq> []" "trim (name infinity_value_state) \<noteq> []"
    and b': "value' infinity_value_state = str ''Infinity''"
    by (simp_all add: infinity_value_state_def trim_Alpha)
  have c: "selectedId empty_value_state \<noteq> []" "trim (name empty_value_state) \<noteq> []"
    and c': "value' empty_value_state = []"
    by (simp_all add: empty_value_state_def trim_Alpha)
  have n: "selectedId blank_value_state = str ''abc123''"
    "trim (name blank_value_state) = str ''Alpha''"
    "selectedId infinity_value_state = str ''abc123''"
    "trim (name infinity_value_state) = str ''Alpha''"
    by (simp_all add: blank_value_state_def infinity_value_state_def trim_Alpha)
  show ?thesis
    using a a' b b' c c' n
      value_check_accepts [OF a] value_check_accepts [OF b] value_check_accepts [OF c]
    by simp
qed

subsection \<open>Selection\<close>

text \<open>
  Claim C8. For a record of the loaded set (whose identifiers are pairwise distinct),
  \<open>handleRecordSelect\<close> with that record's identifier sets \<open>name\<close> to the record's name,
  \<open>value\<close> to \<open>toString\<close> of the record's value, and both messages to the empty string.
\<close>

theorem select_populates_drafts:
  assumes "mockData = Some items" and "r \<in> set items" and "distinct (map item_id items)"
  shows "run (handleRecordSelect toString mockData (item_id r)) s =
           s\<lparr>selectedId := item_id r, name := item_name r,
             value' := toString (item_value r), successMessage := [], errorMessage := []\<rparr>
         \<and> name (run (handleRecordSelect toString mockData (item_id r)) s) = item_name r
         \<and> value' (run (handleRecordSelect toString mockData (item_id r)) s) =
             toString (item_value r)
         \<and> successMessage (run (handleRecordSelect toString mockData (item_id r)) s) = []
         \<and> errorMessage (run (handleRecordSelect toString mockData (item_id r)) s) = []"
  using assms by (simp add: handleRecordSelect_def run_def find_distinct)

text \<open>Selecting \<open>def456\<close>, the second of two records, in a state that shows both messages.\<close>

theorem select_populates_drafts_witness:
  "beta \<in> set [alpha, beta] \<and> distinct (map item_id [alpha, beta])
   \<and> run (handleRecordSelect (\<lambda>n. str ''200'') (Some [alpha, beta]) (str ''def456''))
       messages_shown_state =
       \<lparr>selectedId = str ''def456'', name = str ''Beta'', value' = str ''200'',
        isSubmitting = False, successMessage = [], errorMessage = []\<rparr>"
proof -
  have a: "beta \<in> set [alpha, beta]"
    by simp
  have b: "distinct (map item_id [alpha, beta])"
    by (simp add: alpha_def beta_def str_def)
  show ?thesis
    using a b
      select_populates_drafts [OF refl a b, of "\<lambda>n. str ''200''" messages_shown_state]
    by (simp add: beta_def messages_shown_state_def)
qed

subsection \<open>Rendering\<close>

text \<open>
  Claim C5. \<open>ViewPage\<close> and \<open>UpdatePage\<close> return the loading block exactly when the query
  result is \<open>undefined\<close>, and the empty-state block exactly when it is an array of length
  0; each page has its own second line there, and \<open>UpdatePage\<close> renders a selector
  exactly for a non-empty array.
\<close>

theorem tri_state_rendering:
  "(is_loading (ViewPage mockData) \<longleftrightarrow> mockData = None)
   \<and> (is_loading (UpdatePage mockData s) \<longleftrightarrow> mockData = None)
   \<and> (is_empty_state (ViewPage mockData) \<longleftrightarrow> mockData = Some [])
   \<and> (is_empty_state (UpdatePage mockData s) \<longleftrightarrow> mockData = Some [])
   \<and> (has_selector (UpdatePage mockData s) \<longleftrightarrow> mockData \<noteq> None \<and> mockData \<noteq> Some [])
   \<and> ViewPage (Some []) =
       Empty_state (str ''No data available in the database.'')
         (str ''Use the Update page to add some data.'')
   \<and> UpdatePage (Some []) s =
       Empty_state (str ''No data available in the database.'')
         (str ''Please seed the database first using the data seeding script.'')
   \<and> ViewPage None =
       Loading_container (str ''Loading data from Convex...'')
         (str ''Connecting to real-time database'')
   \<and> UpdatePage None s =
       Loading_container (str ''Loading data from Convex...'')
         (str ''Connecting to real-time database'')"
  by (cases mockData) (auto simp: ViewPage_def UpdatePage_def)

theorem tri_state_rendering_witness:
  "is_loading (ViewPage None) \<and> is_loading (UpdatePage None initial_state)
   \<and> \<not> is_loading (ViewPage (Some [])) \<and> \<not> is_loading (UpdatePage (Some []) initial_state)
   \<and> is_empty_state (ViewPage (Some [])) \<and> is_empty_state (UpdatePage (Some []) initial_state)
   \<and> \<not> has_selector (UpdatePage (Some []) initial_state)
   \<and> \<not> is_empty_state (ViewPage (Some [alpha]))
   \<and> \<not> is_empty_state (UpdatePage (Some [alpha]) initial_state)
   \<and> has_selector (UpdatePage (Some [alpha]) initial_state)"
  using tri_state_rendering [of None initial_state]
    tri_state_rendering [of "Some []" initial_state]
    tri_state_rendering [of "Some [alpha]" initial_state]
  by simp

text \<open>
  Claim C6. In every populated form that \<open>UpdatePage\<close> renders, the selector, the name
  field, the value field and the submit control are disabled while \<open>isSubmitting\<close> holds,
  and the two fields and the submit control are disabled while \<open>selectedId\<close> is empty.
\<close>

theorem disabled_controls:
  assumes "UpdatePage mockData s = Content v"
  shows "(isSubmitting s \<longrightarrow>
            select_disabled v \<and> name_disabled v \<and> value_disabled v \<and> submit_disabled v)
         \<and> (selectedId s = [] \<longrightarrow> name_disabled v \<and> value_disabled v \<and> submit_disabled v)
         \<and> (select_disabled v \<longleftrightarrow> isSubmitting s)
         \<and> (name_disabled v \<longleftrightarrow> selectedId s = [] \<or> isSubmitting s)
         \<and> (value_disabled v \<longleftrightarrow> selectedId s = [] \<or> isSubmitting s)
         \<and> (submit_disabled v \<longleftrightarrow> selectedId s = [] \<or> isSubmitting s)"
  using assms by (auto simp: UpdatePage_def split: option.splits if_splits)

text \<open>The form while \<open>abc123\<close> is being submitted, and the form before any selection.\<close>

theorem disabled_controls_witness:
  "UpdatePage (Some [alpha]) submitting_state = Content submitting_view
   \<and> isSubmitting submitting_state
   \<and> select_disabled submitting_view \<and> name_disabled submitting_view
   \<and> value_disabled submitting_view \<and> submit_disabled submitting_view
   \<and> UpdatePage (Some [alpha]) initial_state = Content unselected_view
   \<and> selectedId initial_state = []
   \<and> name_disabled unselected_view \<and> value_disabled unselected_view
   \<and> submit_disabled unselected_view"
proof -
  have a: "UpdatePage (Some [alpha]) submitting_state = Content submitting_view"
    by (simp add: UpdatePage_def submitting_state_eq submitting_view_def alpha_def
        alpha_options_def)
  have b: "UpdatePage (Some [alpha]) initial_state = Content unselected_view"
    by (simp add: UpdatePage_def initial_state_def unselected_view_def alpha_def
        alpha_options_def)
  have c: "isSubmitting submitting_state" "selectedId initial_state = []"
    by (simp_all add: submitting_state_eq initial_state_def)
  show ?thesis
    using a b c disabled_controls [OF a] disabled_controls [OF b] by simp
qed

subsection \<open>The mutation\<close>

text \<open>
  Claim C9. When the store holds a document under the given identifier, \<open>updateMockData\<close>
  succeeds and returns that identifier; in the new store that document has the given
  name and value and its old identifier, description and creation time, and every other
  identifier maps to what it mapped to before. Without such a document the mutation
  fails.
\<close>

theorem updateMockData_patches:
  "(\<forall>doc. d (arg_id args) = Some doc \<longrightarrow>
      (\<exists>d' doc'. updateMockData d args = Inr (d', arg_id args)
         \<and> d' (arg_id args) = Some doc'
         \<and> item_name doc' = arg_name args \<and> item_value doc' = arg_value args
         \<and> item_id doc' = item_id doc \<and> description doc' = description doc
         \<and> creationTime doc' = creationTime doc
         \<and> (\<forall>k. k \<noteq> arg_id args \<longrightarrow> d' k = d k)))
   \<and> (d (arg_id args) = None \<longrightarrow> updateMockData d args = Inl Nonexistent_document)"
  by (simp add: updateMockData_def db_patch_def)

text \<open>The store with \<open>abc123\<close> and \<open>def456\<close>, patched at \<open>abc123\<close>.\<close>

theorem updateMockData_patches_witness:
  "test_db (arg_id test_args) = Some alpha
   \<and> updateMockData test_db test_args =
       Inr (test_db(str ''abc123'' \<mapsto>
              \<lparr>item_id = str ''abc123'', item_name = str ''Updated Name'',
               item_value = Finite Plus 250, description = Some (str ''First''),
               creationTime = Finite Plus 1234567890000\<rparr>),
            str ''abc123'')
   \<and> (case updateMockData test_db test_args of
         Inl e \<Rightarrow> False
       | Inr (d', i) \<Rightarrow> d' (str ''def456'') = Some beta)"
proof -
  have a: "test_db (arg_id test_args) = Some alpha"
    by (simp add: test_db_def test_args_def str_def)
  have b: "str ''def456'' \<noteq> arg_id test_args"
    by (simp add: test_args_def str_def)
  have c: "test_db (str ''def456'') = Some beta"
    by (simp add: test_db_def)
  show ?thesis
    using a b c updateMockData_patches [of test_db test_args]
    by (auto simp: updateMockData_def db_patch_def test_args_def alpha_def)
qed

subsection \<open>The success timer and teardown\<close>



end
